theory Spec2Isabelle
  imports Complex_Main
begin

section \<open>Comparison.py: the data\<close>

text \<open>
  The script holds six module-level datasets and three functions that hand them to a
  plotting library. An accuracy is a Python float written as a decimal literal; it is
  modelled by the decimal it is written as (\<open>65.69\<close> is \<open>6569 / 100\<close>). A confusion
  matrix is \<open>np.array\<close> of a nested list of integers: a list of rows.
\<close>

type_synonym grid = "int list list"

record globals =
  centralized_acc :: "real list"
  centralized_unseen_acc :: "real list"
  federated_acc :: "real list"
  federated_labels :: "string list"
  cm_centralized :: grid
  cm_federated :: grid

text \<open>
  The assignments of lines 5 to 9 and 46 to 47, as the module namespace holds them once
  the file has been loaded.
\<close>

definition module_globals :: globals where
  "module_globals =
     \<lparr> centralized_acc = [65.69, 68.72, 68.36],
       centralized_unseen_acc = [0.0, 0.0, 0.0],
       federated_acc = [95.94, 97.35, 94.48, 94.64],
       federated_labels = [''All Digits'', ''[1,3,7]'', ''[2,5,8]'', ''[4,6,9]''],
       cm_centralized = [[50, 2, 1], [1, 45, 5], [0, 3, 52]],
       cm_federated = [[58, 1, 0], [1, 57, 2], [0, 1, 59]] \<rparr>"

section \<open>The plotting library\<close>

text \<open>
  Modelled from the spec: the plotting library (\<open>matplotlib.pyplot\<close>) is not part of the
  repository. Its state is the list of figures that are open and the list of figures
  that have been displayed. A figure holds the axes of its subplot grid, its colour
  bars, its super-title and whether \<open>tight_layout\<close> was applied; an axes holds its bar
  containers, its image, its y-range, its title and labels and its legend. The
  spec names one failure of the library that depends on the data, the length mismatch
  between the labels and the values of a bar chart, and assumes an initialised display.
  The library copies the lists and arrays it is handed; it does not write to them, and
  the variables of the module are out of its reach.
\<close>

record bar_container =
  bar_x :: "string list"
  bar_height :: "real list"
  bar_color :: string
  bar_label :: string

type_synonym mappable = "grid \<times> string"

record axes =
  bars :: "bar_container list"
  image :: "mappable option"
  ylim :: "(real \<times> real) option"
  title :: "string option"
  title_pad :: "real option"
  xlabel :: "string option"
  ylabel :: "string option"
  legend :: "(string \<times> string list) option"

record figure =
  figsize :: "real \<times> real"
  nrows :: nat
  ncols :: nat
  axs :: "axes list"
  colorbars :: "mappable list"
  suptitle :: "string option"
  tight :: bool

record pyplot =
  open_figs :: "figure list"
  shown :: "figure list"

record world =
  module_vars :: globals
  plt :: pyplot

datatype error = ShapeMismatch | IndexError

type_synonym stmt = "world \<Rightarrow> error + world"

text \<open>A function body is a sequence of statements; an exception ends it.\<close>

fun block :: "stmt list \<Rightarrow> stmt" where
  "block [] w = Inr w"
| "block (s # ss) w = (case s w of Inl e \<Rightarrow> Inl e | Inr w' \<Rightarrow> block ss w')"

definition empty_axes :: axes where
  "empty_axes =
     \<lparr> bars = [], image = None, ylim = None, title = None, title_pad = None,
       xlabel = None, ylabel = None, legend = None \<rparr>"

definition new_figure :: "nat \<Rightarrow> nat \<Rightarrow> real \<times> real \<Rightarrow> figure" where
  "new_figure r c sz =
     \<lparr> figsize = sz, nrows = r, ncols = c, axs = replicate (r * c) empty_axes,
       colorbars = [], suptitle = None, tight = False \<rparr>"

text \<open>
  \<open>plt.subplots(r, c, figsize=sz)\<close> opens a figure with an \<open>r\<close> by \<open>c\<close> grid of
  axes, makes it the current figure (the last one open) and returns its axes. The
  model returns the position of the figure among the open ones: the local \<open>ax\<close> of the
  source is that handle, and \<open>ax[i]\<close> is the axes \<open>i\<close> of that figure.
\<close>

definition plt_subplots :: "nat \<Rightarrow> nat \<Rightarrow> real \<times> real \<Rightarrow> world \<Rightarrow> nat \<times> world" where
  "plt_subplots r c sz w =
     (length (open_figs (plt w)),
      w\<lparr>plt := (plt w)\<lparr>open_figs := open_figs (plt w) @ [new_figure r c sz]\<rparr>\<rparr>)"

text \<open>
  A method of \<open>ax[i]\<close>. An index outside the axes array is Python's \<open>IndexError\<close>; a
  handle outside the open figures is reported the same way.
\<close>

definition on_axes :: "nat \<Rightarrow> nat \<Rightarrow> (axes \<Rightarrow> error + axes) \<Rightarrow> stmt" where
  "on_axes fig i f w =
     (let figs = open_figs (plt w) in
      if fig < length figs \<and> i < length (axs (figs ! fig)) then
        (case f (axs (figs ! fig) ! i) of
           Inl e \<Rightarrow> Inl e
         | Inr a \<Rightarrow>
             Inr (w\<lparr>plt := (plt w)\<lparr>open_figs :=
               figs[fig := (figs ! fig)\<lparr>axs := (axs (figs ! fig))[i := a]\<rparr>]\<rparr>\<rparr>))
      else Inl IndexError)"

definition ax_bar :: "nat \<Rightarrow> nat \<Rightarrow> string list \<Rightarrow> real list \<Rightarrow> string \<Rightarrow> string \<Rightarrow> stmt" where
  "ax_bar fig i x height color label =
     on_axes fig i (\<lambda>a.
       if length x \<noteq> length height then Inl ShapeMismatch
       else Inr (a\<lparr>bars := bars a @
         [\<lparr>bar_x = x, bar_height = height, bar_color = color, bar_label = label\<rparr>]\<rparr>))"

definition ax_set_ylim :: "nat \<Rightarrow> nat \<Rightarrow> real \<Rightarrow> real \<Rightarrow> stmt" where
  "ax_set_ylim fig i lo hi = on_axes fig i (\<lambda>a. Inr (a\<lparr>ylim := Some (lo, hi)\<rparr>))"

definition ax_set_title :: "nat \<Rightarrow> nat \<Rightarrow> string \<Rightarrow> real option \<Rightarrow> stmt" where
  "ax_set_title fig i t pad =
     on_axes fig i (\<lambda>a. Inr (a\<lparr>title := Some t, title_pad := pad\<rparr>))"

definition ax_set_ylabel :: "nat \<Rightarrow> nat \<Rightarrow> string \<Rightarrow> stmt" where
  "ax_set_ylabel fig i s = on_axes fig i (\<lambda>a. Inr (a\<lparr>ylabel := Some s\<rparr>))"

text \<open>The legend lists the labels of the artists drawn so far.\<close>

definition ax_legend :: "nat \<Rightarrow> nat \<Rightarrow> string \<Rightarrow> stmt" where
  "ax_legend fig i loc =
     on_axes fig i (\<lambda>a. Inr (a\<lparr>legend := Some (loc, map bar_label (bars a))\<rparr>))"

text \<open>\<open>ax.matshow(cm, cmap=c)\<close> draws the grid as an image and returns the image.\<close>

definition ax_matshow :: "nat \<Rightarrow> nat \<Rightarrow> grid \<Rightarrow> string \<Rightarrow> world \<Rightarrow> error + mappable \<times> world" where
  "ax_matshow fig i cm cmap w =
     (case on_axes fig i (\<lambda>a. Inr (a\<lparr>image := Some (cm, cmap)\<rparr>)) w of
        Inl e \<Rightarrow> Inl e
      | Inr w' \<Rightarrow> Inr ((cm, cmap), w'))"

text \<open>
  The functions of \<open>plt\<close> itself act on the current figure and on its current axes,
  the last one made. Where there is none the library makes one first.
\<close>

definition gcf :: "pyplot \<Rightarrow> pyplot" where
  "gcf p = (if open_figs p = [] then p\<lparr>open_figs := [new_figure 0 0 (6.4, 4.8)]\<rparr> else p)"

definition on_current_figure :: "(figure \<Rightarrow> figure) \<Rightarrow> stmt" where
  "on_current_figure f w =
     (let p = gcf (plt w); figs = open_figs p in
      Inr (w\<lparr>plt := p\<lparr>open_figs := butlast figs @ [f (last figs)]\<rparr>\<rparr>))"

definition on_current_axes :: "(axes \<Rightarrow> axes) \<Rightarrow> stmt" where
  "on_current_axes f =
     on_current_figure (\<lambda>fg.
       let as = (if axs fg = [] then [empty_axes] else axs fg) in
       fg\<lparr>axs := butlast as @ [f (last as)]\<rparr>)"

definition plt_suptitle :: "string \<Rightarrow> stmt" where
  "plt_suptitle t = on_current_figure (\<lambda>fg. fg\<lparr>suptitle := Some t\<rparr>)"

definition plt_tight_layout :: stmt where
  "plt_tight_layout = on_current_figure (\<lambda>fg. fg\<lparr>tight := True\<rparr>)"

definition plt_colorbar :: "mappable \<Rightarrow> stmt" where
  "plt_colorbar m = on_current_figure (\<lambda>fg. fg\<lparr>colorbars := colorbars fg @ [m]\<rparr>)"

definition plt_xlabel :: "string \<Rightarrow> stmt" where
  "plt_xlabel s = on_current_axes (\<lambda>a. a\<lparr>xlabel := Some s\<rparr>)"

definition plt_ylabel :: "string \<Rightarrow> stmt" where
  "plt_ylabel s = on_current_axes (\<lambda>a. a\<lparr>ylabel := Some s\<rparr>)"

text \<open>
  \<open>plt.show()\<close> displays every open figure and returns when their windows are closed:
  no figure is open afterwards.
\<close>

definition plt_show :: stmt where
  "plt_show w =
     Inr (w\<lparr>plt := \<lparr>open_figs = [], shown = shown (plt w) @ open_figs (plt w)\<rparr>\<rparr>)"

section \<open>The three functions and the script\<close>

definition plot_accuracy_comparison :: stmt where
  "plot_accuracy_comparison w =
     (let (ax, w1) = plt_subplots 1 2 (12, 6) w in
      block
        [\<lambda>s. ax_bar ax 0 [''Model 1'', ''Model 2'', ''Model 3'']
                (centralized_acc (module_vars s)) ''blue'' ''Entire Dataset'' s,
         \<lambda>s. ax_bar ax 0 [''Model 1'', ''Model 2'', ''Model 3'']
                (centralized_unseen_acc (module_vars s)) ''red'' ''Unseen Digits'' s,
         ax_set_ylim ax 0 0 100,
         ax_set_title ax 0 ''Centralized Learning'' None,
         ax_set_ylabel ax 0 ''Accuracy (%)'',
         ax_legend ax 0 ''upper left'',
         \<lambda>s. ax_bar ax 1 (federated_labels (module_vars s))
                (federated_acc (module_vars s)) ''green'' ''Federated Results'' s,
         ax_set_ylim ax 1 0 100,
         ax_set_title ax 1 ''Federated Learning'' None,
         ax_set_ylabel ax 1 ''Accuracy (%)'',
         ax_legend ax 1 ''upper left'',
         plt_suptitle ''Centralized vs Federated Learning Accuracy Comparison'',
         plt_tight_layout,
         plt_show] w1)"

text \<open>The parameter \<open>title\<close> of the source is \<open>ttl\<close> here: \<open>title\<close> is a field of the axes.\<close>

definition plot_confusion_matrix :: "grid \<Rightarrow> string \<Rightarrow> stmt" where
  "plot_confusion_matrix cm ttl w =
     (let (ax, w1) = plt_subplots 1 1 (8, 8) w in
      case ax_matshow ax 0 cm ''Blues'' w1 of
        Inl e \<Rightarrow> Inl e
      | Inr (cax, w2) \<Rightarrow>
          block
            [plt_colorbar cax,
             ax_set_title ax 0 (ttl @ '' Confusion Matrix'') (Some 20),
             plt_xlabel ''Predicted'',
             plt_ylabel ''True'',
             plt_show] w2)"

definition compare_confusion_matrices :: stmt where
  "compare_confusion_matrices =
     block
       [\<lambda>s. plot_confusion_matrix (cm_centralized (module_vars s)) ''Centralized Model'' s,
        \<lambda>s. plot_confusion_matrix (cm_federated (module_vars s)) ''Federated Model'' s]"

text \<open>
  Loading the file binds the datasets; the guard of line 53 then runs the two calls
  when the module's name is \<open>__main__\<close>, and nothing when the file is imported.
\<close>

definition loaded :: "pyplot \<Rightarrow> world" where
  "loaded p = \<lparr> module_vars = module_globals, plt = p \<rparr>"

definition script :: "string \<Rightarrow> pyplot \<Rightarrow> error + world" where
  "script name p =
     (if name = ''__main__''
      then block [plot_accuracy_comparison, compare_confusion_matrices] (loaded p)
      else Inr (loaded p))"

definition fresh :: pyplot where
  "fresh = \<lparr> open_figs = [], shown = [] \<rparr>"

section \<open>What a call displays\<close>

text \<open>
  The output of a call is what it adds to the figures displayed; an exception leaves
  none. The three functions, as calls that a caller can make in any order:
\<close>

definition output_of :: "stmt \<Rightarrow> world \<Rightarrow> error + figure list" where
  "output_of f w =
     (case f w of
        Inl e \<Rightarrow> Inl e
      | Inr w' \<Rightarrow> Inr (drop (length (shown (plt w))) (shown (plt w'))))"

datatype call =
  PlotAccuracyComparison
| PlotConfusionMatrix grid string
| CompareConfusionMatrices

fun perform :: "call \<Rightarrow> stmt" where
  "perform PlotAccuracyComparison = plot_accuracy_comparison"
| "perform (PlotConfusionMatrix cm ttl) = plot_confusion_matrix cm ttl"
| "perform CompareConfusionMatrices = compare_confusion_matrices"

definition run_calls :: "call list \<Rightarrow> stmt" where
  "run_calls cs = block (map perform cs)"

text \<open>The panels of a figure that hold a bar chart, and those that hold a heatmap.\<close>

definition bar_panels :: "figure \<Rightarrow> nat" where
  "bar_panels f = length (filter (\<lambda>a. bars a \<noteq> []) (axs f))"

definition heatmaps :: "figure \<Rightarrow> nat" where
  "heatmaps f = length (filter (\<lambda>a. image a \<noteq> None) (axs f))"

text \<open>A bar runs from the baseline 0 to its height; it fits when both lie in the y-range.\<close>

definition bars_fit :: "axes \<Rightarrow> bool" where
  "bars_fit a =
     (case ylim a of
        None \<Rightarrow> False
      | Some (lo, hi) \<Rightarrow>
          lo \<le> 0 \<and> 0 \<le> hi \<and>
          list_all (\<lambda>b. list_all (\<lambda>v. lo \<le> v \<and> v \<le> hi) (bar_height b)) (bars a))"

definition labels_match :: "axes \<Rightarrow> bool" where
  "labels_match a = list_all (\<lambda>b. length (bar_x b) = length (bar_height b)) (bars a)"

definition square :: "grid \<Rightarrow> bool" where
  "square g = list_all (\<lambda>r. length r = length g) g"

definition nonneg_counts :: "grid \<Rightarrow> bool" where
  "nonneg_counts g = (list_all (list_all (\<lambda>x. 0 \<le> x)) g \<and> list_all (\<lambda>r. 0 \<le> sum_list r) g)"

section \<open>What the functions compute\<close>

text \<open>
  Each function is run once and for all on an arbitrary state: the lemmas below give the
  state it returns, and every property that follows is read off them.
\<close>

lemmas lib_defs = plt_subplots_def ax_bar_def ax_set_ylim_def ax_set_title_def ax_set_ylabel_def
  ax_legend_def ax_matshow_def on_axes_def gcf_def on_current_figure_def on_current_axes_def
  plt_suptitle_def plt_tight_layout_def plt_colorbar_def plt_xlabel_def plt_ylabel_def plt_show_def
  new_figure_def empty_axes_def

lemma plot_confusion_matrix_result:
  "plot_confusion_matrix cm ttl w =
     Inr (w\<lparr>plt := \<lparr>open_figs = [],
       shown = shown (plt w) @ open_figs (plt w) @
         [\<lparr>figsize = (8, 8), nrows = 1, ncols = 1,
           axs = [\<lparr>bars = [], image = Some (cm, ''Blues''), ylim = None,
                   title = Some (ttl @ '' Confusion Matrix''), title_pad = Some 20,
                   xlabel = Some ''Predicted'', ylabel = Some ''True'', legend = None\<rparr>],
           colorbars = [(cm, ''Blues'')], suptitle = None, tight = False\<rparr>]\<rparr>\<rparr>)"
  by (simp add: plot_confusion_matrix_def lib_defs Let_def nth_append)

lemma compare_confusion_matrices_result:
  "compare_confusion_matrices w =
     Inr (w\<lparr>plt := \<lparr>open_figs = [],
       shown = shown (plt w) @ open_figs (plt w) @
         [\<lparr>figsize = (8, 8), nrows = 1, ncols = 1,
           axs = [\<lparr>bars = [], image = Some (cm_centralized (module_vars w), ''Blues''),
                   ylim = None, title = Some ''Centralized Model Confusion Matrix'',
                   title_pad = Some 20, xlabel = Some ''Predicted'', ylabel = Some ''True'',
                   legend = None\<rparr>],
           colorbars = [(cm_centralized (module_vars w), ''Blues'')], suptitle = None,
           tight = False\<rparr>,
          \<lparr>figsize = (8, 8), nrows = 1, ncols = 1,
           axs = [\<lparr>bars = [], image = Some (cm_federated (module_vars w), ''Blues''),
                   ylim = None, title = Some ''Federated Model Confusion Matrix'',
                   title_pad = Some 20, xlabel = Some ''Predicted'', ylabel = Some ''True'',
                   legend = None\<rparr>],
           colorbars = [(cm_federated (module_vars w), ''Blues'')], suptitle = None,
           tight = False\<rparr>]\<rparr>\<rparr>)"
  by (simp add: compare_confusion_matrices_def plot_confusion_matrix_result)

lemma plot_accuracy_comparison_result:
  assumes "length (centralized_acc (module_vars w)) = 3"
    and "length (centralized_unseen_acc (module_vars w)) = 3"
    and "length (federated_labels (module_vars w)) = length (federated_acc (module_vars w))"
  shows "plot_accuracy_comparison w =
     Inr (w\<lparr>plt := \<lparr>open_figs = [],
       shown = shown (plt w) @ open_figs (plt w) @
         [\<lparr>figsize = (12, 6), nrows = 1, ncols = 2,
           axs =
             [\<lparr>bars =
                 [\<lparr>bar_x = [''Model 1'', ''Model 2'', ''Model 3''],
                   bar_height = centralized_acc (module_vars w),
                   bar_color = ''blue'', bar_label = ''Entire Dataset''\<rparr>,
                  \<lparr>bar_x = [''Model 1'', ''Model 2'', ''Model 3''],
                   bar_height = centralized_unseen_acc (module_vars w),
                   bar_color = ''red'', bar_label = ''Unseen Digits''\<rparr>],
               image = None, ylim = Some (0, 100), title = Some ''Centralized Learning'',
               title_pad = None, xlabel = None, ylabel = Some ''Accuracy (%)'',
               legend = Some (''upper left'', [''Entire Dataset'', ''Unseen Digits''])\<rparr>,
              \<lparr>bars =
                 [\<lparr>bar_x = federated_labels (module_vars w),
                   bar_height = federated_acc (module_vars w),
                   bar_color = ''green'', bar_label = ''Federated Results''\<rparr>],
               image = None, ylim = Some (0, 100), title = Some ''Federated Learning'',
               title_pad = None, xlabel = None, ylabel = Some ''Accuracy (%)'',
               legend = Some (''upper left'', [''Federated Results''])\<rparr>],
           colorbars = [],
           suptitle = Some ''Centralized vs Federated Learning Accuracy Comparison'',
           tight = True\<rparr>]\<rparr>\<rparr>)"
  using assms
  by (simp add: plot_accuracy_comparison_def lib_defs Let_def nth_append numeral_2_eq_2)

lemma plot_accuracy_comparison_mismatch:
  assumes "length (centralized_acc (module_vars w)) \<noteq> 3
     \<or> length (centralized_unseen_acc (module_vars w)) \<noteq> 3
     \<or> length (federated_labels (module_vars w)) \<noteq> length (federated_acc (module_vars w))"
  shows "plot_accuracy_comparison w = Inl ShapeMismatch"
  using assms
  by (auto simp add: plot_accuracy_comparison_def lib_defs Let_def nth_append numeral_2_eq_2)

lemma plot_accuracy_comparison_lengths:
  assumes "plot_accuracy_comparison w = Inr w'"
  shows "length (centralized_acc (module_vars w)) = 3
     \<and> length (centralized_unseen_acc (module_vars w)) = 3
     \<and> length (federated_labels (module_vars w)) = length (federated_acc (module_vars w))"
proof (rule ccontr)
  assume "\<not> ?thesis"
  then have "plot_accuracy_comparison w = Inl ShapeMismatch"
    by (intro plot_accuracy_comparison_mismatch) blast
  with assms show False by simp
qed

lemma module_globals_lengths:
  "length (centralized_acc module_globals) = 3"
  "length (centralized_unseen_acc module_globals) = 3"
  "length (federated_labels module_globals) = length (federated_acc module_globals)"
  by (simp_all add: module_globals_def)

lemma perform_vars:
  assumes "perform c w = Inr w'"
  shows "module_vars w' = module_vars w"
proof (cases c)
  case PlotAccuracyComparison
  with assms have run: "plot_accuracy_comparison w = Inr w'" by simp
  from plot_accuracy_comparison_lengths [OF run] plot_accuracy_comparison_result [of w] run
  show ?thesis by auto
next
  case (PlotConfusionMatrix cm ttl)
  with assms show ?thesis by (auto simp: plot_confusion_matrix_result)
next
  case CompareConfusionMatrices
  with assms show ?thesis by (auto simp: compare_confusion_matrices_result)
qed

lemma perform_closes_figures:
  assumes "perform c w = Inr w'"
  shows "open_figs (plt w') = []"
proof (cases c)
  case PlotAccuracyComparison
  with assms have run: "plot_accuracy_comparison w = Inr w'" by simp
  from plot_accuracy_comparison_lengths [OF run] plot_accuracy_comparison_result [of w] run
  show ?thesis by auto
next
  case (PlotConfusionMatrix cm ttl)
  with assms show ?thesis by (auto simp: plot_confusion_matrix_result)
next
  case CompareConfusionMatrices
  with assms show ?thesis by (auto simp: compare_confusion_matrices_result)
qed

lemma perform_loaded:
  assumes "module_vars w = module_globals"
  shows "\<exists>w'. perform c w = Inr w' \<and> module_vars w' = module_globals"
proof (cases c)
  case PlotAccuracyComparison
  then show ?thesis
    using plot_accuracy_comparison_result [of w] assms
    by (simp add: module_globals_lengths)
next
  case (PlotConfusionMatrix cm ttl)
  then show ?thesis using assms by (simp add: plot_confusion_matrix_result)
next
  case CompareConfusionMatrices
  then show ?thesis using assms by (simp add: compare_confusion_matrices_result)
qed

lemma run_calls_loaded:
  assumes "module_vars w = module_globals"
  shows "\<exists>w'. run_calls cs w = Inr w' \<and> module_vars w' = module_globals"
  using assms
proof (induction cs arbitrary: w)
  case Nil
  then show ?case by (simp add: run_calls_def)
next
  case (Cons c cs)
  from perform_loaded [OF Cons.prems, of c]
  obtain w1 where step: "perform c w = Inr w1" and vars: "module_vars w1 = module_globals"
    by blast
  from Cons.IH [OF vars] step show ?case
    by (simp add: run_calls_def)
qed

section \<open>The claims\<close>

text \<open>
  C1. Run as \<open>__main__\<close>, the script calls \<open>plot_accuracy_comparison\<close> and then
  \<open>compare_confusion_matrices\<close>, in that order, and renders nothing else: from a fresh
  process the figures displayed are those of the first call followed by those of the
  second. Imported under its own name it renders nothing.
\<close>

theorem script_main_order:
  "script ''__main__'' p =
     (case plot_accuracy_comparison (loaded p) of
        Inl e \<Rightarrow> Inl e
      | Inr w \<Rightarrow> compare_confusion_matrices w)
   \<and> (\<exists>acc_out cm_out w.
        output_of plot_accuracy_comparison (loaded fresh) = Inr acc_out
      \<and> output_of compare_confusion_matrices (loaded fresh) = Inr cm_out
      \<and> script ''__main__'' fresh = Inr w
      \<and> shown (plt w) = acc_out @ cm_out
      \<and> length acc_out = 1 \<and> length cm_out = 2
      \<and> open_figs (plt w) = [])
   \<and> script ''Comparison'' p = Inr (loaded p)"
proof (intro conjI)
  show "script ''__main__'' p =
     (case plot_accuracy_comparison (loaded p) of
        Inl e \<Rightarrow> Inl e
      | Inr w \<Rightarrow> compare_confusion_matrices w)"
    by (simp add: script_def compare_confusion_matrices_def split: sum.splits)
next
  have vars: "module_vars (loaded fresh) = module_globals"
    by (simp add: loaded_def)
  show "\<exists>acc_out cm_out w.
        output_of plot_accuracy_comparison (loaded fresh) = Inr acc_out
      \<and> output_of compare_confusion_matrices (loaded fresh) = Inr cm_out
      \<and> script ''__main__'' fresh = Inr w
      \<and> shown (plt w) = acc_out @ cm_out
      \<and> length acc_out = 1 \<and> length cm_out = 2
      \<and> open_figs (plt w) = []"
    using plot_accuracy_comparison_result [of "loaded fresh"]
    by (simp add: vars module_globals_lengths output_of_def script_def
        compare_confusion_matrices_result loaded_def fresh_def)
next
  show "script ''Comparison'' p = Inr (loaded p)"
    by (simp add: script_def)
qed

text \<open>
  C2. On the literal datasets of the module, \<open>plot_accuracy_comparison\<close> followed by
  \<open>compare_confusion_matrices\<close> raises nothing and displays three figures: one with two
  axes, each a bar chart, and two with one heatmap each. That makes exactly two bar
  chart panels and exactly two heatmaps.
\<close>

theorem literal_inputs_render:
  "\<exists>w1 w2 f h1 h2.
      plot_accuracy_comparison (loaded fresh) = Inr w1
    \<and> compare_confusion_matrices w1 = Inr w2
    \<and> shown (plt w2) = [f, h1, h2]
    \<and> length (axs f) = 2 \<and> bar_panels f = 2 \<and> heatmaps f = 0
    \<and> bar_panels h1 = 0 \<and> heatmaps h1 = 1
    \<and> bar_panels h2 = 0 \<and> heatmaps h2 = 1
    \<and> sum_list (map bar_panels (shown (plt w2))) = 2
    \<and> sum_list (map heatmaps (shown (plt w2))) = 2"
  using plot_accuracy_comparison_result [of "loaded fresh"]
  by (simp add: module_globals_lengths compare_confusion_matrices_result loaded_def fresh_def
      bar_panels_def heatmaps_def)

text \<open>
  C3. \<open>plot_accuracy_comparison\<close> takes no argument and returns no value (it is a
  statement: its only input and result is the state). Called when no other figure is
  pending, whatever the datasets hold, a call that returns has displayed a single
  figure, a 1 by 2 grid of two bar charts, and the y-range of both is 0 to 100.
\<close>

theorem plot_accuracy_comparison_figure:
  assumes "open_figs (plt w) = []"
    and "output_of plot_accuracy_comparison w = Inr out"
  shows "\<exists>f. out = [f] \<and> nrows f = 1 \<and> ncols f = 2 \<and> length (axs f) = 2
     \<and> map ylim (axs f) = [Some (0, 100), Some (0, 100)]
     \<and> bar_panels f = 2 \<and> heatmaps f = 0"
proof -
  from assms(2) obtain w' where run: "plot_accuracy_comparison w = Inr w'"
    by (cases "plot_accuracy_comparison w") (simp_all add: output_of_def)
  note len = plot_accuracy_comparison_lengths [OF run]
  note res = plot_accuracy_comparison_result [OF len [THEN conjunct1]
      len [THEN conjunct2, THEN conjunct1] len [THEN conjunct2, THEN conjunct2]]
  from assms(2) show ?thesis
    unfolding output_of_def res
    by (clarsimp simp: assms(1) bar_panels_def heatmaps_def)
qed

theorem plot_accuracy_comparison_figure_witness:
  "open_figs (plt (loaded fresh)) = []
   \<and> (\<exists>f. output_of plot_accuracy_comparison (loaded fresh) = Inr [f]
        \<and> nrows f = 1 \<and> ncols f = 2
        \<and> map ylim (axs f) = [Some (0, 100), Some (0, 100)])"
proof -
  have not_open: "open_figs (plt (loaded fresh)) = []"
    by (simp add: loaded_def fresh_def)
  have vars: "module_vars (loaded fresh) = module_globals"
    by (simp add: loaded_def)
  obtain out where out: "output_of plot_accuracy_comparison (loaded fresh) = Inr out"
    using plot_accuracy_comparison_result [of "loaded fresh"]
    by (simp add: vars module_globals_lengths output_of_def)
  from plot_accuracy_comparison_figure [OF not_open out] out not_open
  show ?thesis by auto
qed

text \<open>
  C4. Every bar chart of \<open>plot_accuracy_comparison\<close> pairs as many labels as values:
  the three centralized labels with the three values of \<open>centralized_acc\<close> and of
  \<open>centralized_unseen_acc\<close>, the four \<open>federated_labels\<close> with the four values of
  \<open>federated_acc\<close>.
\<close>
theorem bar_labels_match_values:
  "length (centralized_acc module_globals) = 3
   \<and> length (centralized_unseen_acc module_globals) = 3
   \<and> length (federated_labels module_globals) = 4
   \<and> length (federated_acc module_globals) = 4
   \<and> (\<exists>f. output_of plot_accuracy_comparison (loaded fresh) = Inr [f]
        \<and> list_all labels_match (axs f)
        \<and> map (\<lambda>a. map (\<lambda>b. (length (bar_x b), length (bar_height b))) (bars a)) (axs f)
            = [[(3, 3), (3, 3)], [(4, 4)]])"
proof -
  have vars: "module_vars (loaded fresh) = module_globals"
    by (simp add: loaded_def)
  have "\<exists>f. output_of plot_accuracy_comparison (loaded fresh) = Inr [f]
        \<and> list_all labels_match (axs f)
        \<and> map (\<lambda>a. map (\<lambda>b. (length (bar_x b), length (bar_height b))) (bars a)) (axs f)
            = [[(3, 3), (3, 3)], [(4, 4)]]"
    using plot_accuracy_comparison_result [of "loaded fresh"]
    by (simp add: vars module_globals_lengths output_of_def labels_match_def)
       (simp add: loaded_def fresh_def module_globals_def)
  then show ?thesis
    by (simp add: module_globals_def)
qed

text \<open>
  C5. \<open>cm_centralized\<close> and \<open>cm_federated\<close> are square, 3 by 3, and every entry and
  every row sum is a non-negative integer.
\<close>
theorem confusion_matrices_square_nonneg:
  "square (cm_centralized module_globals) \<and> length (cm_centralized module_globals) = 3
   \<and> nonneg_counts (cm_centralized module_globals)
   \<and> square (cm_federated module_globals) \<and> length (cm_federated module_globals) = 3
   \<and> nonneg_counts (cm_federated module_globals)
   \<and> map sum_list (cm_centralized module_globals) = [53, 51, 55]
   \<and> map sum_list (cm_federated module_globals) = [59, 60, 60]"
  by (simp add: module_globals_def square_def nonneg_counts_def)

text \<open>
  C6. Each of the three functions, called a second time, displays what it displayed the
  first time, and leaves no figure pending: nothing accumulates between the calls. The
  first call starts with no figure of another caller pending. Every call of the script
  does, and so does every call that follows a call of one of the three functions
  (\<open>perform_closes_figures\<close>).
\<close>
theorem render_twice_same_output:
  assumes "open_figs (plt w) = []"
    and "perform c w = Inr w1"
  shows "output_of (perform c) w1 = output_of (perform c) w
     \<and> (\<exists>out. output_of (perform c) w = Inr out)
     \<and> open_figs (plt w1) = []"
proof (cases c)
  case PlotAccuracyComparison
  with assms(2) have run: "plot_accuracy_comparison w = Inr w1" by simp
  note len = plot_accuracy_comparison_lengths [OF run]
  note res = plot_accuracy_comparison_result [OF len [THEN conjunct1]
      len [THEN conjunct2, THEN conjunct1] len [THEN conjunct2, THEN conjunct2]]
  from run res have closed: "open_figs (plt w1) = []"
    by auto
  note vars = perform_vars [OF assms(2)]
  from len have len1: "length (centralized_acc (module_vars w1)) = 3"
      "length (centralized_unseen_acc (module_vars w1)) = 3"
      "length (federated_labels (module_vars w1)) = length (federated_acc (module_vars w1))"
    by (simp_all add: vars)
  note res1 = plot_accuracy_comparison_result [OF len1]
  show ?thesis
    unfolding PlotAccuracyComparison perform.simps output_of_def res res1
    by (simp add: vars closed assms(1))
next
  case (PlotConfusionMatrix cm ttl)
  with assms show ?thesis
    by (auto simp: output_of_def plot_confusion_matrix_result)
next
  case CompareConfusionMatrices
  with assms show ?thesis
    by (auto simp: output_of_def compare_confusion_matrices_result)
qed

theorem render_twice_same_output_witness:
  "open_figs (plt (loaded fresh)) = []
   \<and> (\<exists>w1. perform PlotAccuracyComparison (loaded fresh) = Inr w1
        \<and> output_of (perform PlotAccuracyComparison) w1
            = output_of (perform PlotAccuracyComparison) (loaded fresh)
        \<and> open_figs (plt w1) = [])"
proof -
  have not_open: "open_figs (plt (loaded fresh)) = []"
    by (simp add: loaded_def fresh_def)
  have vars: "module_vars (loaded fresh) = module_globals"
    by (simp add: loaded_def)
  from perform_loaded [OF vars, of PlotAccuracyComparison]
  obtain w1 where run: "perform PlotAccuracyComparison (loaded fresh) = Inr w1"
    by blast
  from render_twice_same_output [OF not_open run] run not_open
  show ?thesis by blast
qed

text \<open>
  C7. The six datasets are bound when the module is loaded and no function assigns to
  them: after any sequence of calls of the three functions, each of which returns, every
  dataset is the literal of the source.
\<close>
theorem datasets_never_mutated:
  "\<exists>w'. run_calls cs (loaded p) = Inr w'
     \<and> module_vars w' = module_globals
     \<and> centralized_acc (module_vars w') = [65.69, 68.72, 68.36]
     \<and> centralized_unseen_acc (module_vars w') = [0.0, 0.0, 0.0]
     \<and> federated_acc (module_vars w') = [95.94, 97.35, 94.48, 94.64]
     \<and> federated_labels (module_vars w') = [''All Digits'', ''[1,3,7]'', ''[2,5,8]'', ''[4,6,9]'']
     \<and> cm_centralized (module_vars w') = [[50, 2, 1], [1, 45, 5], [0, 3, 52]]
     \<and> cm_federated (module_vars w') = [[58, 1, 0], [1, 57, 2], [0, 1, 59]]"
proof -
  have "module_vars (loaded p) = module_globals"
    by (simp add: loaded_def)
  from run_calls_loaded [OF this, of cs]
  obtain w' where "run_calls cs (loaded p) = Inr w'" and "module_vars w' = module_globals"
    by blast
  then show ?thesis
    by (simp add: module_globals_def)
qed

text \<open>
  C8. Every element of \<open>centralized_unseen_acc\<close> is zero when the module is loaded, and
  is still zero after any sequence of calls and after the script has run: nothing
  computes or assigns another value.
\<close>
theorem unseen_accuracy_stays_zero:
  "list_all (\<lambda>v. v = 0) (centralized_unseen_acc module_globals)
   \<and> (\<exists>w'. run_calls cs (loaded p) = Inr w'
        \<and> list_all (\<lambda>v. v = 0) (centralized_unseen_acc (module_vars w')))
   \<and> (\<exists>w'. script ''__main__'' p = Inr w'
        \<and> list_all (\<lambda>v. v = 0) (centralized_unseen_acc (module_vars w')))"
proof -
  have zero: "list_all (\<lambda>v. v = 0) (centralized_unseen_acc module_globals)"
    by (simp add: module_globals_def)
  have vars: "module_vars (loaded p) = module_globals"
    by (simp add: loaded_def)
  have calls: "\<exists>w'. run_calls ds (loaded p) = Inr w'
        \<and> list_all (\<lambda>v. v = 0) (centralized_unseen_acc (module_vars w'))" for ds
    using run_calls_loaded [OF vars, of ds] zero by auto
  have "script ''__main__'' p
      = run_calls [PlotAccuracyComparison, CompareConfusionMatrices] (loaded p)"
    by (simp add: script_def run_calls_def)
  with calls [of "[PlotAccuracyComparison, CompareConfusionMatrices]"] calls [of cs] zero
  show ?thesis by simp
qed

text \<open>
  C9. \<open>plot_confusion_matrix\<close> checks nothing about the shape of its matrix: for every
  grid, square or not, and every title it returns without an exception, having displayed
  a figure whose image is that grid and whose title is the given one followed by
  \<open>Confusion Matrix\<close>.
\<close>
theorem plot_confusion_matrix_no_validation:
  "\<exists>w' f. plot_confusion_matrix cm ttl w = Inr w'
     \<and> shown (plt w') = shown (plt w) @ open_figs (plt w) @ [f]
     \<and> map image (axs f) = [Some (cm, ''Blues'')]
     \<and> map title (axs f) = [Some (ttl @ '' Confusion Matrix'')]
     \<and> module_vars w' = module_vars w"
  by (simp add: plot_confusion_matrix_result)

text \<open>
  C10. Every value of \<open>centralized_acc\<close>, \<open>centralized_unseen_acc\<close> and \<open>federated_acc\<close>
  lies between 0 and 100, so every bar of the figure that \<open>plot_accuracy_comparison\<close>
  displays fits the y-range of its panel.
\<close>
theorem accuracies_within_axis_range:
  "list_all (\<lambda>v. 0 \<le> v \<and> v \<le> 100) (centralized_acc module_globals)
   \<and> list_all (\<lambda>v. 0 \<le> v \<and> v \<le> 100) (centralized_unseen_acc module_globals)
   \<and> list_all (\<lambda>v. 0 \<le> v \<and> v \<le> 100) (federated_acc module_globals)
   \<and> (\<exists>f. output_of plot_accuracy_comparison (loaded fresh) = Inr [f]
        \<and> list_all bars_fit (axs f))"
proof -
  have vars: "module_vars (loaded fresh) = module_globals"
    by (simp add: loaded_def)
  have "\<exists>f. output_of plot_accuracy_comparison (loaded fresh) = Inr [f]
        \<and> list_all bars_fit (axs f)"
    using plot_accuracy_comparison_result [of "loaded fresh"]
    by (simp add: vars module_globals_lengths output_of_def bars_fit_def)
       (simp add: loaded_def fresh_def module_globals_def)
  then show ?thesis
    by (simp add: module_globals_def)
qed

end
